theory Spec2Isabelle
  imports Main "HOL-Library.AList"
begin

section \<open>The XBlock runtime of openedx/core/djangoapps/xblock/runtime/runtime.py\<close>

text \<open>
  The module defines two classes: \<^verbatim>\<open>XBlockRuntime\<close>, one object per user, and
  \<^verbatim>\<open>XBlockRuntimeSystem\<close>, the long-lived factory of runtimes. Their methods are
  embedded below as functions that take the object (\<open>self\<close>) and return it updated.
  Python exceptions are values of the type \<open>error\<close>; a method that may raise returns
  \<open>error + 'a\<close> together with the state it leaves behind, because the module itself
  catches an exception, writes to the runtime and raises again. The methods that no
  property below is about (\<^verbatim>\<open>handler_url\<close>, \<^verbatim>\<open>local_resource_url\<close>, the XML
  methods, \<^verbatim>\<open>_lookup_asset_url\<close>, which returns None) are not embedded.
\<close>

subsection \<open>Values, users and keys\<close>

datatype error =
    PermissionDenied
  | NoSuchServiceError string
  | AssertionError
  | KeyError string
  | RuntimeError string
  | PlatformError string

text \<open>
  \<open>PlatformError\<close> stands for whatever an imported class raises (a database error
  in \<^verbatim>\<open>FieldDataCache\<close>, a missing view in the base runtime).
\<close>

datatype pyval =
    PyNone
  | PyBool bool
  | PyInt int
  | PyStr string
  | PyDict "(string \<times> pyval) list"

type_synonym pydict = "(string \<times> pyval) list"

text \<open>
  A Django user is a registered \<^verbatim>\<open>User\<close> (primary key, staff flag) or the
  \<^verbatim>\<open>AnonymousUser\<close>; the attribute \<^verbatim>\<open>self.user\<close> is one of these or None.
  \<^verbatim>\<open>user_id: int | str | None\<close>.
\<close>

datatype user = User int bool | AnonymousUser

datatype user_id = IntId int | StrId string

fun is_anonymous :: "user \<Rightarrow> bool" where
  "is_anonymous AnonymousUser = True"
| "is_anonymous (User pk staff) = False"

fun is_staff :: "user \<Rightarrow> bool" where
  "is_staff AnonymousUser = False"
| "is_staff (User pk staff) = staff"

text \<open>\<^verbatim>\<open>user.id\<close>: the primary key; Django's AnonymousUser has \<^verbatim>\<open>id = None\<close>.\<close>

fun user_dot_id :: "user \<Rightarrow> user_id option" where
  "user_dot_id AnonymousUser = None"
| "user_dot_id (User pk staff) = Some (IntId pk)"

type_synonym learning_context_key = string

datatype usage_key = UsageKey (context_key: learning_context_key) (block_id: string)

datatype scope_ids =
  ScopeIds (scope_user_id: "user_id option") (block_type: string) (def_id: string)
    (usage_id: usage_key)

datatype scope =
    Scope_content
  | Scope_settings
  | Scope_parent
  | Scope_children
  | Scope_user_state_summary
  | Scope_user_state
  | Scope_user_info
  | Scope_preferences

datatype student_data_mode = Ephemeral | Persisted

text \<open>
  Of an XBlock the runtime reads \<^verbatim>\<open>block.scope_ids\<close> and calls
  \<^verbatim>\<open>block.service_declaration(name)\<close>, which gives the declaration ("need" or
  "want") or None.
\<close>

record block =
  scope_ids :: scope_ids
  service_declaration :: "string \<Rightarrow> string option"

subsection \<open>Objects and their identities\<close>

text \<open>
  Several properties below are about object identity (a fresh store, the identical
  cached object, one cache per learning context). Every object the module constructs therefore carries
  the address it was allocated at. The heap is the allocation counter: the addresses
  below it are in use, and a constructor takes the counter's value and increments it.
\<close>

type_synonym addr = nat
type_synonym heap = nat

definition alloc :: "heap \<Rightarrow> addr \<times> heap" where
  "alloc h = (h, Suc h)"

definition allocated :: "heap \<Rightarrow> addr \<Rightarrow> bool" where
  "allocated h a = (a < h)"

text \<open>
  \<^verbatim>\<open>DjangoKeyValueStore(field_data_cache)\<close> keeps a reference to its cache: the second
  address.
\<close>

datatype key_value_store =
    EphemeralKeyValueStore addr
  | DjangoKeyValueStore addr addr

datatype field_data =
    BlockstoreFieldData addr
  | BlockstoreChildrenData addr field_data
  | KvsFieldData addr key_value_store
  | SplitFieldData addr "(scope \<times> field_data option) list"

text \<open>
  What \<^verbatim>\<open>service()\<close> returns. The field-data service is the FieldData object itself;
  the other services are recorded with the arguments this module passes.
\<close>

datatype service_object =
    FieldData field_data
  | CompletionService "user option" learning_context_key
  | DjangoXBlockUserService user bool
  | MakoService "string option"
  | XBlockI18nService block
  | SandboxService learning_context_key
  | CacheService
  | ReplaceURLService block
  | RebindUserService "user option" learning_context_key
  | EventPublishingService "user option" learning_context_key
  | ErrorTracker
  | BaseRuntimeService string

record resource =
  kind :: string
  data :: string
  mimetype :: string
  placement :: string

text \<open>
  A \<^verbatim>\<open>web_fragments\<close> Fragment keeps its resources in the attribute
  \<^verbatim>\<open>_resources\<close> (here \<open>private_resources\<close>). Its property \<^verbatim>\<open>resources\<close> lists
  every resource once, in the order of first appearance:
  \<^verbatim>\<open>[x for x in self._resources if x not in seen and not seen.add(x)]\<close>.
  \<^verbatim>\<open>to_dict()\<close> writes that list and \<^verbatim>\<open>from_dict\<close> sets \<^verbatim>\<open>_resources\<close> from it.
\<close>

record fragment =
  content :: string
  private_resources :: "resource list"

fun first_appearances :: "resource list \<Rightarrow> resource list \<Rightarrow> resource list" where
  "first_appearances seen [] = []"
| "first_appearances seen (x # xs) =
    (if x \<in> set seen then first_appearances seen xs
     else x # first_appearances (x # seen) xs)"

definition resources :: "fragment \<Rightarrow> resource list" where
  "resources f = first_appearances [] (private_resources f)"

subsection \<open>The two classes\<close>

record xblock_runtime_system =
  runtime_class :: string
  authored_data_store :: field_data
  children_data_store :: field_data
  student_data_mode :: student_data_mode

text \<open>
  \<^verbatim>\<open>django_field_data_caches\<close> owns the FieldDataCache objects: an entry is the
  object's address and its current content. The content \<open>'c\<close> is whatever the
  imported class \<^verbatim>\<open>FieldDataCache\<close> keeps.
\<close>

record 'c runtime =
  self_addr :: addr
  class_name :: string
  system :: xblock_runtime_system
  user :: "user option"
  user_id :: "user_id option"
  block_field_datas :: "scope_ids \<rightharpoonup> field_data option"
  django_field_data_caches :: "learning_context_key \<rightharpoonup> addr \<times> 'c"

subsection \<open>Imported code\<close>

text \<open>
  The functions and classes this module imports are not part of it; they are
  parameters of the model:
  \<^item> \<open>get_xblock_id_for_anonymous_user\<close> (openedx.core.djangoapps.xblock.utils);
  \<^item> \<open>FieldDataCache\<close>, the constructor called with \<^verbatim>\<open>asides=None, read_only=False\<close>,
    and \<open>add_blocks_to_cache\<close>, which mutates the cache and may raise
    (lms.djangoapps.courseware.model_data);
  \<^item> \<open>super_service\<close> and \<open>super_render\<close>, the base classes' \<^verbatim>\<open>service\<close> and
    \<^verbatim>\<open>render\<close>;
  \<^item> \<open>get_site_root_url\<close> (the app config), \<open>replace_urls\<close>
    (\<^verbatim>\<open>ReplaceURLService(xblock=block, ...).replace_urls\<close>) and \<open>wrap_fragment\<close>
    (openedx.core.lib.xblock_utils);
  \<^item> \<open>context_dict_for_learning_context\<close> (common.djangoapps.track.contexts) and the
    waffle switch \<^verbatim>\<open>ENABLE_COMPLETION_TRACKING_SWITCH\<close>.
\<close>

record 'c platform =
  get_xblock_id_for_anonymous_user :: "user \<Rightarrow> user_id"
  FieldDataCache :: "block list \<Rightarrow> learning_context_key \<Rightarrow> user \<Rightarrow> error + 'c"
  add_blocks_to_cache :: "'c \<Rightarrow> block list \<Rightarrow> error option \<times> 'c"
  super_service :: "block \<Rightarrow> string \<Rightarrow> error + service_object option"
  super_render :: "'c runtime \<Rightarrow> block \<Rightarrow> string \<Rightarrow> pydict option \<Rightarrow> error + fragment"
  get_site_root_url :: string
  replace_urls :: "block \<Rightarrow> string \<Rightarrow> string"
  wrap_fragment :: "fragment \<Rightarrow> string \<Rightarrow> fragment"
  context_dict_for_learning_context :: "learning_context_key \<Rightarrow> pydict"
  completion_tracking_enabled :: bool

text \<open>
  What the module does to the world outside: the signals it sends, the completions it
  submits and the events it writes to the tracking log, oldest first.
\<close>

datatype effect =
    SCORE_PUBLISHED block user pyval pyval pyval pyval pyval
  | submit_completion "user option" usage_key pyval
  | server_track string pydict pydict

type_synonym world = "effect list"

subsection \<open>Python helpers\<close>

text \<open>\<^verbatim>\<open>s.startswith(p)\<close>\<close>

definition startswith :: "string \<Rightarrow> string \<Rightarrow> bool" where
  "startswith s p = (take (length p) s = p)"

text \<open>\<^verbatim>\<open>d.get(k)\<close>: None when the key is missing.\<close>

definition dict_get :: "pydict \<Rightarrow> string \<Rightarrow> pyval" where
  "dict_get d k = (case map_of d k of None \<Rightarrow> PyNone | Some v \<Rightarrow> v)"

text \<open>The truth value of a user id: 0 and the empty string are false.\<close>

fun truthy :: "user_id \<Rightarrow> bool" where
  "truthy (IntId i) = (i \<noteq> 0)"
| "truthy (StrId s) = (s \<noteq> [])"

fun pyval_of_user_id :: "user_id \<Rightarrow> pyval" where
  "pyval_of_user_id (IntId i) = PyInt i"
| "pyval_of_user_id (StrId s) = PyStr s"

subsection \<open>XBlockRuntimeSystem\<close>

text \<open>
  \<^verbatim>\<open>__init__\<close> (lines 405-432). The assertion on \<^verbatim>\<open>student_data_mode\<close> holds by
  the type. The handler_url callback and the id managers are used by no function
  embedded here and are left out.
\<close>

definition XBlockRuntimeSystem_init ::
  "heap \<Rightarrow> student_data_mode \<Rightarrow> string \<Rightarrow> xblock_runtime_system \<times> heap" where
  "XBlockRuntimeSystem_init h mode cls =
    (let (a, h1) = alloc h;
         authored = BlockstoreFieldData a;
         (a', h2) = alloc h1
     in (\<lparr>runtime_class = cls,
          authored_data_store = authored,
          children_data_store = BlockstoreChildrenData a' authored,
          student_data_mode = mode\<rparr>, h2))"

text \<open>\<^verbatim>\<open>get_service\<close> (lines 441-451).\<close>

definition get_service :: "xblock_runtime_system \<Rightarrow> block \<Rightarrow> string \<Rightarrow> service_object option" where
  "get_service sys blk service_name =
    (if service_name = ''error_tracker'' then Some ErrorTracker else None)"

subsection \<open>XBlockRuntime\<close>

text \<open>
  \<^verbatim>\<open>__init__\<close> (lines 95-116). The runtime is an instance of the system's
  \<^verbatim>\<open>runtime_class\<close>, a subclass of XBlockRuntime constructed by this method.
\<close>

definition XBlockRuntime_init ::
  "'c platform \<Rightarrow> heap \<Rightarrow> xblock_runtime_system \<Rightarrow> user option \<Rightarrow> 'c runtime \<times> heap" where
  "XBlockRuntime_init p h sys usr =
    (let (a, h1) = alloc h
     in (\<lparr>self_addr = a,
          class_name = runtime_class sys,
          system = sys,
          user = usr,
          user_id =
            (case usr of
               None \<Rightarrow> None
             | Some u \<Rightarrow>
                 if is_anonymous u then Some (get_xblock_id_for_anonymous_user p u)
                 else user_dot_id u),
          block_field_datas = Map.empty,
          django_field_data_caches = Map.empty\<rparr>, h1))"

text \<open>\<^verbatim>\<open>XBlockRuntimeSystem.get_runtime\<close> (lines 434-439).\<close>

definition get_runtime ::
  "'c platform \<Rightarrow> heap \<Rightarrow> xblock_runtime_system \<Rightarrow> user option \<Rightarrow> 'c runtime \<times> heap" where
  "get_runtime p h self usr = XBlockRuntime_init p h self usr"

subsubsection \<open>Events\<close>

text \<open>\<^verbatim>\<open>handle_grade_event\<close> (lines 184-198).\<close>

definition handle_grade_event ::
  "'c runtime \<Rightarrow> block \<Rightarrow> pydict \<Rightarrow> world \<Rightarrow> (error + unit) \<times> world" where
  "handle_grade_event self blk event w =
    (case user self of
       None \<Rightarrow> (Inr (), w)
     | Some u \<Rightarrow>
         if \<not> is_anonymous u then
           (case map_of event ''value'' of
              None \<Rightarrow> (Inl (KeyError ''value''), w)
            | Some raw_earned \<Rightarrow>
                (case map_of event ''max_value'' of
                   None \<Rightarrow> (Inl (KeyError ''max_value''), w)
                 | Some raw_possible \<Rightarrow>
                     (Inr (),
                      w @ [SCORE_PUBLISHED blk u raw_earned raw_possible
                             (dict_get event ''only_if_higher'')
                             (dict_get event ''score_deleted'')
                             (dict_get event ''grader_response'')])))
         else (Inr (), w))"

text \<open>\<^verbatim>\<open>handle_completion_event\<close> (lines 200-210).\<close>

definition handle_completion_event ::
  "'c platform \<Rightarrow> 'c runtime \<Rightarrow> block \<Rightarrow> pydict \<Rightarrow> world \<Rightarrow> (error + unit) \<times> world" where
  "handle_completion_event p self blk event w =
    (if \<not> completion_tracking_enabled p then (Inr (), w)
     else
       (case map_of event ''completion'' of
          None \<Rightarrow> (Inl (KeyError ''completion''), w)
        | Some c \<Rightarrow>
            (Inr (), w @ [submit_completion (user self) (usage_id (scope_ids blk)) c])))"

text \<open>\<^verbatim>\<open>log_event_to_tracking_log\<close> (lines 172-182).\<close>

definition log_event_to_tracking_log ::
  "'c platform \<Rightarrow> 'c runtime \<Rightarrow> block \<Rightarrow> string \<Rightarrow> pydict \<Rightarrow> world \<Rightarrow> (error + unit) \<times> world" where
  "log_event_to_tracking_log p self blk event_type event_data w =
    (let log_context =
           context_dict_for_learning_context p (context_key (usage_id (scope_ids blk)));
         log_context1 =
           (case user_id self of
              None \<Rightarrow> log_context
            | Some uid \<Rightarrow>
                if truthy uid then AList.update ''user_id'' (pyval_of_user_id uid) log_context
                else log_context);
         log_context2 = AList.update ''asides'' (PyDict []) log_context1
     in (Inr (), w @ [server_track event_type log_context2 event_data]))"

text \<open>
  \<^verbatim>\<open>get_event_handler\<close> (lines 156-170) returns a bound method or None: here the
  handler applied to \<open>self\<close>.
\<close>

definition get_event_handler ::
  "'c platform \<Rightarrow> 'c runtime \<Rightarrow> string
     \<Rightarrow> (block \<Rightarrow> pydict \<Rightarrow> world \<Rightarrow> (error + unit) \<times> world) option" where
  "get_event_handler p self event_type =
    (if user_id self = None then None
     else if event_type = ''grade'' then Some (handle_grade_event self)
     else if event_type = ''completion'' then Some (handle_completion_event p self)
     else None)"

text \<open>\<^verbatim>\<open>publish\<close> (lines 148-154). A bound method is true.\<close>

definition publish ::
  "'c platform \<Rightarrow> 'c runtime \<Rightarrow> block \<Rightarrow> string \<Rightarrow> pydict \<Rightarrow> world \<Rightarrow> (error + unit) \<times> world" where
  "publish p self blk event_type event_data w =
    (case get_event_handler p self event_type of
       Some special_handler \<Rightarrow> special_handler blk event_data w
     | None \<Rightarrow> log_event_to_tracking_log p self blk event_type event_data w)"

subsubsection \<open>Field data\<close>

text \<open>
  The assertion of line 310:
  \<^verbatim>\<open>isinstance(self.user_id, str) and self.user_id.startswith("anon")\<close>.
\<close>

fun is_anon_str :: "user_id option \<Rightarrow> bool" where
  "is_anon_str (Some (StrId s)) = startswith s ''anon''"
| "is_anon_str (Some (IntId i)) = False"
| "is_anon_str None = False"

text \<open>
  \<^verbatim>\<open>_init_field_data_for_block\<close>, lines 305-329: the value of the local variable
  \<^verbatim>\<open>student_data_store\<close> after the if-chain, with the runtime and the heap as the
  chain leaves them. A constructor that raises allocates nothing;
  \<^verbatim>\<open>add_blocks_to_cache\<close> works on the stored cache in place, so what it did before
  raising stays.
\<close>

definition student_data_store ::
  "'c platform \<Rightarrow> 'c runtime \<Rightarrow> heap \<Rightarrow> block
     \<Rightarrow> (error + field_data option) \<times> 'c runtime \<times> heap" where
  "student_data_store p self h blk =
    (case user self of
       None \<Rightarrow> (Inr None, self, h)
     | Some u \<Rightarrow>
         if is_anonymous u then
           (if is_anon_str (user_id self) then
              (let (a_kvs, h1) = alloc h;
                   kvs = EphemeralKeyValueStore a_kvs;
                   (a_fd, h2) = alloc h1
               in (Inr (Some (KvsFieldData a_fd kvs)), self, h2))
            else (Inl AssertionError, self, h))
         else if student_data_mode (system self) = Ephemeral then
           (let (a_kvs, h1) = alloc h;
                kvs = EphemeralKeyValueStore a_kvs;
                (a_fd, h2) = alloc h1
            in (Inr (Some (KvsFieldData a_fd kvs)), self, h2))
         else
           (let ckey = context_key (usage_id (scope_ids blk)) in
            case django_field_data_caches self ckey of
              None \<Rightarrow>
                (case FieldDataCache p [blk] ckey u of
                   Inl e \<Rightarrow> (Inl e, self, h)
                 | Inr c \<Rightarrow>
                     (let (a_fdc, h1) = alloc h;
                          self1 = self\<lparr>django_field_data_caches :=
                                    (django_field_data_caches self)(ckey \<mapsto> (a_fdc, c))\<rparr>;
                          (a_kvs, h2) = alloc h1;
                          (a_fd, h3) = alloc h2
                      in (Inr (Some (KvsFieldData a_fd (DjangoKeyValueStore a_kvs a_fdc))),
                          self1, h3)))
            | Some (a_fdc, c) \<Rightarrow>
                (case add_blocks_to_cache p c [blk] of
                   (err, c') \<Rightarrow>
                     (let self1 = self\<lparr>django_field_data_caches :=
                                    (django_field_data_caches self)(ckey \<mapsto> (a_fdc, c'))\<rparr>
                      in case err of
                           Some e \<Rightarrow> (Inl e, self1, h)
                         | None \<Rightarrow>
                             (let (a_kvs, h1) = alloc h;
                                  (a_fd, h2) = alloc h1
                              in (Inr (Some (KvsFieldData a_fd
                                               (DjangoKeyValueStore a_kvs a_fdc))),
                                  self1, h2))))))"

text \<open>
  \<^verbatim>\<open>_init_field_data_for_block\<close> (lines 301-340): the store above, then the
  \<^verbatim>\<open>SplitFieldData\<close> of lines 331-340. The dict literal is kept as the list of its items.
\<close>

definition init_field_data_for_block ::
  "'c platform \<Rightarrow> 'c runtime \<Rightarrow> heap \<Rightarrow> block \<Rightarrow> (error + field_data) \<times> 'c runtime \<times> heap" where
  "init_field_data_for_block p self h blk =
    (case student_data_store p self h blk of
       (Inl e, self1, h1) \<Rightarrow> (Inl e, self1, h1)
     | (Inr sds, self1, h1) \<Rightarrow>
         (let (a, h2) = alloc h1
          in (Inr (SplitFieldData a
                [(Scope_content, Some (authored_data_store (system self1))),
                 (Scope_settings, Some (authored_data_store (system self1))),
                 (Scope_parent, Some (authored_data_store (system self1))),
                 (Scope_children, Some (children_data_store (system self1))),
                 (Scope_user_state_summary, sds),
                 (Scope_user_state, sds),
                 (Scope_user_info, sds),
                 (Scope_preferences, sds)]),
              self1, h2)))"

text \<open>
  \<^verbatim>\<open>service\<close> (lines 227-299). In the field-data branch the exception handler stores
  None and raises again. The user service's two anonymous ids come from code outside
  this module and are not recorded.
\<close>

definition service ::
  "'c platform \<Rightarrow> 'c runtime \<Rightarrow> heap \<Rightarrow> block \<Rightarrow> string
     \<Rightarrow> (error + service_object option) \<times> 'c runtime \<times> heap" where
  "service p self h blk service_name =
    (let declaration = service_declaration blk service_name;
         ckey = context_key (usage_id (scope_ids blk))
     in
     if declaration = None then (Inl (NoSuchServiceError service_name), self, h)
     else if service_name = ''field-data'' then
       (case block_field_datas self (scope_ids blk) of
          None \<Rightarrow>
            (case init_field_data_for_block p self h blk of
               (Inr fd, self1, h1) \<Rightarrow>
                 (Inr (Some (FieldData fd)),
                  self1\<lparr>block_field_datas := (block_field_datas self1)(scope_ids blk \<mapsto> Some fd)\<rparr>,
                  h1)
             | (Inl e, self1, h1) \<Rightarrow>
                 (Inl e,
                  self1\<lparr>block_field_datas := (block_field_datas self1)(scope_ids blk \<mapsto> None)\<rparr>,
                  h1))
        | Some stored \<Rightarrow> (Inr (map_option FieldData stored), self, h))
     else if service_name = ''completion'' then
       (Inr (Some (CompletionService (user self) ckey)), self, h)
     else if service_name = ''user'' then
       (case user self of
          None \<Rightarrow>
            (Inl (RuntimeError
                   ''Cannot access user service when there is no user bound to the XBlock.''),
             self, h)
        | Some u \<Rightarrow> (Inr (Some (DjangoXBlockUserService u (is_staff u))), self, h))
     else if service_name = ''mako'' then
       (if student_data_mode (system self) = Ephemeral
        then (Inr (Some (MakoService (Some ''lms.''))), self, h)
        else (Inr (Some (MakoService None)), self, h))
     else if service_name = ''i18n'' then (Inr (Some (XBlockI18nService blk)), self, h)
     else if service_name = ''sandbox'' then (Inr (Some (SandboxService ckey)), self, h)
     else if service_name = ''cache'' then (Inr (Some CacheService), self, h)
     else if service_name = ''replace_urls'' then (Inr (Some (ReplaceURLService blk)), self, h)
     else if service_name = ''rebind_user'' then
       (Inr (Some (RebindUserService (user self) ckey)), self, h)
     else if service_name = ''publish'' then
       (Inr (Some (EventPublishingService (user self) ckey)), self, h)
     else
       (case get_service (system self) blk service_name of
          Some s \<Rightarrow> (Inr (Some s), self, h)
        | None \<Rightarrow> (super_service p blk service_name, self, h)))"

text \<open>
  A client of one runtime: any sequence of service requests, whatever each returns or
  raises. The two dicts of the runtime are written by \<open>service\<close> only.
\<close>

fun service_calls ::
  "'c platform \<Rightarrow> 'c runtime \<Rightarrow> heap \<Rightarrow> (block \<times> string) list \<Rightarrow> 'c runtime \<times> heap" where
  "service_calls p self h [] = (self, h)"
| "service_calls p self h ((blk, service_name) # calls) =
    (case service p self h blk service_name of
       (r, self1, h1) \<Rightarrow> service_calls p self1 h1 calls)"

subsubsection \<open>Rendering\<close>

text \<open>The first loop of \<^verbatim>\<open>render\<close> (lines 357-361), over \<^verbatim>\<open>fragment.resources\<close>.\<close>

fun needs_fix :: "resource list \<Rightarrow> bool" where
  "needs_fix [] = False"
| "needs_fix (r # rs) =
    (if kind r = ''url'' \<and> startswith (data r) ''/'' then True else needs_fix rs)"

text \<open>
  The second loop (lines 366-369), over the resources of \<^verbatim>\<open>fragment.to_dict()\<close>;
  \<^verbatim>\<open>Fragment.from_dict\<close> rebuilds the fragment from them.
\<close>

fun fix_resources :: "string \<Rightarrow> resource list \<Rightarrow> resource list" where
  "fix_resources site_root_url [] = []"
| "fix_resources site_root_url (r # rs) =
    (if kind r = ''url'' \<and> startswith (data r) ''/''
     then r\<lparr>data := site_root_url @ data r\<rparr>
     else r) # fix_resources site_root_url rs"

text \<open>\<^verbatim>\<open>render\<close> (lines 342-380). The log messages are left out.\<close>

definition render ::
  "'c platform \<Rightarrow> 'c runtime \<Rightarrow> block \<Rightarrow> string \<Rightarrow> pydict option \<Rightarrow> error + fragment" where
  "render p self blk view_name context =
    (if (case user self of None \<Rightarrow> True | Some u \<Rightarrow> is_anonymous u)
        \<and> view_name \<noteq> ''public_view''
     then Inl PermissionDenied
     else
       (case super_render p self blk view_name context of
          Inl e \<Rightarrow> Inl e
        | Inr fragment \<Rightarrow>
            (let fragment1 =
                   (if needs_fix (resources fragment)
                    then fragment\<lparr>private_resources :=
                           fix_resources (get_site_root_url p) (resources fragment)\<rparr>
                    else fragment)
             in Inr (wrap_fragment p fragment1 (replace_urls p blk (content fragment1))))))"

subsection \<open>A concrete platform\<close>

text \<open>
  One platform, system and runtime on which the theorems below are instantiated: ids of
  anonymous users start with "anon", a FieldDataCache is the list of its blocks, the
  base runtime renders one fragment with a relative resource URL and the same URL in
  absolute form, and a wrapped fragment takes the listed resources of the fragment it
  wraps.
\<close>

definition demo_block :: "learning_context_key \<Rightarrow> string \<Rightarrow> block" where
  "demo_block ckey name =
    \<lparr>scope_ids = ScopeIds None ''html'' name (UsageKey ckey name),
     service_declaration = (\<lambda>service_name.
       if service_name = ''field-data'' then Some ''need''
       else if service_name = ''i18n'' then Some ''want''
       else None)\<rparr>"

definition demo_fragment :: fragment where
  "demo_fragment =
    \<lparr>content = ''<p>hi</p>'',
     private_resources =
       [\<lparr>kind = ''url'', data = ''/static/a.js'', mimetype = ''application/javascript'',
          placement = ''foot''\<rparr>,
        \<lparr>kind = ''url'', data = ''https://lms.example.org/static/a.js'',
          mimetype = ''application/javascript'', placement = ''foot''\<rparr>,
        \<lparr>kind = ''text'', data = ''/* css */'', mimetype = ''text/css'',
          placement = ''head''\<rparr>]\<rparr>"

definition demo_platform :: "block list platform" where
  "demo_platform =
    \<lparr>get_xblock_id_for_anonymous_user = (\<lambda>u. StrId ''anon1f0e''),
     FieldDataCache = (\<lambda>blocks ckey u. Inr blocks),
     add_blocks_to_cache = (\<lambda>c blocks. (None, c @ blocks)),
     super_service = (\<lambda>blk service_name. Inr None),
     super_render = (\<lambda>self blk view_name context. Inr demo_fragment),
     get_site_root_url = ''https://lms.example.org'',
     replace_urls = (\<lambda>blk text. text @ ''<!-- urls replaced -->''),
     wrap_fragment = (\<lambda>f new_content.
       \<lparr>content = new_content, private_resources = resources f\<rparr>),
     context_dict_for_learning_context = (\<lambda>ckey. [(''course_id'', PyStr ckey)]),
     completion_tracking_enabled = True\<rparr>"

definition demo_system :: "student_data_mode \<Rightarrow> xblock_runtime_system" where
  "demo_system mode = fst (XBlockRuntimeSystem_init 0 mode ''XBlockRuntime'')"

definition demo_runtime :: "student_data_mode \<Rightarrow> user option \<Rightarrow> block list runtime" where
  "demo_runtime mode usr = fst (get_runtime demo_platform 2 (demo_system mode) usr)"

section \<open>Properties\<close>

lemmas demo_defs = demo_block_def demo_fragment_def demo_platform_def demo_system_def
  demo_runtime_def get_runtime_def XBlockRuntime_init_def XBlockRuntimeSystem_init_def alloc_def Let_def

subsection \<open>What the field-data initialisation and a service request leave unchanged\<close>



lemma sds_assertion_fails:
  assumes "user self = Some u" and "is_anonymous u" and "\<not> is_anon_str (user_id self)"
  shows "student_data_store p self h blk = (Inl AssertionError, self, h)"
  using assms by (simp add: student_data_store_def)

lemma sds_persisted_new:
  assumes "user self = Some u" and "\<not> is_anonymous u"
    and "student_data_mode (system self) \<noteq> Ephemeral"
    and "django_field_data_caches self (context_key (usage_id (scope_ids blk))) = None"
  shows "student_data_store p self h blk =
    (case FieldDataCache p [blk] (context_key (usage_id (scope_ids blk))) u of
       Inl e \<Rightarrow> (Inl e, self, h)
     | Inr c \<Rightarrow>
         (Inr (Some (KvsFieldData (Suc (Suc h)) (DjangoKeyValueStore (Suc h) h))),
          self\<lparr>django_field_data_caches :=
            (django_field_data_caches self)(context_key (usage_id (scope_ids blk)) \<mapsto> (h, c))\<rparr>,
          Suc (Suc (Suc h))))"
  using assms by (simp add: student_data_store_def alloc_def split: sum.splits)

lemma sds_persisted_reuse:
  assumes "user self = Some u" and "\<not> is_anonymous u"
    and "student_data_mode (system self) \<noteq> Ephemeral"
    and "django_field_data_caches self (context_key (usage_id (scope_ids blk))) = Some (a_fdc, c)"
  shows "student_data_store p self h blk =
    (let self1 = self\<lparr>django_field_data_caches :=
            (django_field_data_caches self)(context_key (usage_id (scope_ids blk)) \<mapsto>
               (a_fdc, snd (add_blocks_to_cache p c [blk])))\<rparr>
     in case fst (add_blocks_to_cache p c [blk]) of
       Some e \<Rightarrow> (Inl e, self1, h)
     | None \<Rightarrow>
         (Inr (Some (KvsFieldData (Suc h) (DjangoKeyValueStore h a_fdc))), self1, Suc (Suc h)))"
  using assms
  by (simp add: student_data_store_def alloc_def Let_def split: prod.splits option.splits)


lemma sds_frame:
  assumes "student_data_store p self h blk = (r, self1, h1)"
  shows "user self1 = user self \<and> user_id self1 = user_id self \<and> system self1 = system self
    \<and> block_field_datas self1 = block_field_datas self
    \<and> self_addr self1 = self_addr self \<and> class_name self1 = class_name self \<and> h \<le> h1"
  using assms
  by (auto simp add: student_data_store_def alloc_def Let_def
      split: option.splits if_splits sum.splits prod.splits)

lemma sds_cache_addr:
  assumes "student_data_store p self h blk = (r, self1, h1)"
    and "django_field_data_caches self k = Some (a, c)"
  shows "\<exists>c'. django_field_data_caches self1 k = Some (a, c')"
  using assms
  by (auto simp add: student_data_store_def alloc_def Let_def
      split: option.splits if_splits sum.splits prod.splits)

lemma init_frame:
  assumes "init_field_data_for_block p self h blk = (r, self1, h1)"
  shows "user self1 = user self \<and> user_id self1 = user_id self \<and> system self1 = system self
    \<and> block_field_datas self1 = block_field_datas self
    \<and> self_addr self1 = self_addr self \<and> class_name self1 = class_name self \<and> h \<le> h1"
proof (cases "student_data_store p self h blk")
  case (fields r0 self0 h0)
  from sds_frame [OF fields] fields assms show ?thesis
    by (auto simp add: init_field_data_for_block_def alloc_def split: sum.splits)
qed

lemma init_cache_addr:
  assumes "init_field_data_for_block p self h blk = (r, self1, h1)"
    and "django_field_data_caches self k = Some (a, c)"
  shows "\<exists>c'. django_field_data_caches self1 k = Some (a, c')"
proof (cases "student_data_store p self h blk")
  case (fields r0 self0 h0)
  from sds_cache_addr [OF fields assms(2)] fields assms(1) show ?thesis
    by (auto simp add: init_field_data_for_block_def alloc_def split: sum.splits)
qed

lemma service_stored:
  assumes "service_declaration blk ''field-data'' \<noteq> None"
    and "block_field_datas self (scope_ids blk) = Some stored"
  shows "service p self h blk ''field-data'' = (Inr (map_option FieldData stored), self, h)"
  using assms by (simp add: service_def Let_def)

lemma service_frame:
  assumes "service p self h blk service_name = (r, self1, h1)"
  shows "user self1 = user self \<and> user_id self1 = user_id self \<and> system self1 = system self
    \<and> self_addr self1 = self_addr self \<and> class_name self1 = class_name self \<and> h \<le> h1"
proof (cases "init_field_data_for_block p self h blk")
  case (fields r0 self0 h0)
  from init_frame [OF fields] fields assms show ?thesis
    by (auto simp add: service_def Let_def split: if_splits option.splits sum.splits)
qed

lemma service_keeps_entry:
  assumes "service p self h blk service_name = (r, self1, h1)"
    and "block_field_datas self k = Some v"
  shows "block_field_datas self1 k = Some v"
proof (cases "init_field_data_for_block p self h blk")
  case (fields r0 self0 h0)
  from init_frame [OF fields] fields assms show ?thesis
    by (auto simp add: service_def Let_def split: if_splits option.splits sum.splits)
qed

lemma service_cache_addr:
  assumes "service p self h blk service_name = (r, self1, h1)"
    and "django_field_data_caches self k = Some (a, c)"
  shows "\<exists>c'. django_field_data_caches self1 k = Some (a, c')"
proof (cases "init_field_data_for_block p self h blk")
  case (fields r0 self0 h0)
  from init_cache_addr [OF fields assms(2)] fields assms show ?thesis
    by (auto simp add: service_def Let_def split: if_splits option.splits sum.splits)
qed

lemma service_calls_frame:
  "service_calls p self h calls = (self2, h2) \<Longrightarrow>
     user self2 = user self \<and> user_id self2 = user_id self \<and> system self2 = system self
     \<and> self_addr self2 = self_addr self \<and> class_name self2 = class_name self \<and> h \<le> h2"
proof (induction calls arbitrary: self h)
  case Nil
  then show ?case by simp
next
  case (Cons call calls)
  obtain blk service_name where call: "call = (blk, service_name)" by (cases call)
  obtain r self1 h1 where step: "service p self h blk service_name = (r, self1, h1)"
    by (cases "service p self h blk service_name")
  from Cons.prems call step have "service_calls p self1 h1 calls = (self2, h2)" by simp
  from Cons.IH [OF this] service_frame [OF step] show ?case by simp
qed

lemma service_calls_keep_entry:
  "service_calls p self h calls = (self2, h2) \<Longrightarrow> block_field_datas self k = Some v \<Longrightarrow>
     block_field_datas self2 k = Some v"
proof (induction calls arbitrary: self h)
  case Nil
  then show ?case by simp
next
  case (Cons call calls)
  obtain blk service_name where call: "call = (blk, service_name)" by (cases call)
  obtain r self1 h1 where step: "service p self h blk service_name = (r, self1, h1)"
    by (cases "service p self h blk service_name")
  from Cons.prems call step have rest: "service_calls p self1 h1 calls = (self2, h2)" by simp
  from service_keeps_entry [OF step Cons.prems(2)] Cons.IH [OF rest] show ?case by simp
qed

lemma service_calls_cache_addr:
  "service_calls p self h calls = (self2, h2) \<Longrightarrow> django_field_data_caches self k = Some (a, c) \<Longrightarrow>
     \<exists>c'. django_field_data_caches self2 k = Some (a, c')"
proof (induction calls arbitrary: self h c)
  case Nil
  then show ?case by simp
next
  case (Cons call calls)
  obtain blk service_name where call: "call = (blk, service_name)" by (cases call)
  obtain r self1 h1 where step: "service p self h blk service_name = (r, self1, h1)"
    by (cases "service p self h blk service_name")
  from Cons.prems call step have rest: "service_calls p self1 h1 calls = (self2, h2)" by simp
  from service_cache_addr [OF step Cons.prems(2)] obtain c1
    where "django_field_data_caches self1 k = Some (a, c1)" by blast
  from Cons.IH [OF rest this] show ?case .
qed

lemma service_undeclared:
  "service_declaration blk service_name = None \<Longrightarrow>
     service p self h blk service_name = (Inl (NoSuchServiceError service_name), self, h)"
  by (simp add: service_def)

lemma service_first:
  assumes "service_declaration blk ''field-data'' \<noteq> None"
    and "block_field_datas self (scope_ids blk) = None"
    and "init_field_data_for_block p self h blk = (r0, self0, h0)"
  shows "service p self h blk ''field-data'' =
    ((case r0 of Inl e \<Rightarrow> Inl e | Inr fd \<Rightarrow> Inr (Some (FieldData fd))),
     self0\<lparr>block_field_datas := (block_field_datas self0)(scope_ids blk \<mapsto>
        (case r0 of Inl e \<Rightarrow> None | Inr fd \<Rightarrow> Some fd))\<rparr>,
     h0)"
  using assms by (cases r0) (auto simp add: service_def Let_def)

lemma init_creates_cache:
  assumes "user self = Some u" and "\<not> is_anonymous u"
    and "student_data_mode (system self) = Persisted"
    and "django_field_data_caches self (context_key (usage_id (scope_ids blk))) = None"
    and "init_field_data_for_block p self h blk = (Inr fd, self1, h1)"
  shows "\<exists>c. FieldDataCache p [blk] (context_key (usage_id (scope_ids blk))) u = Inr c
    \<and> django_field_data_caches self1 =
        (django_field_data_caches self)(context_key (usage_id (scope_ids blk)) \<mapsto> (h, c))
    \<and> h < h1"
  using assms sds_persisted_new [of self u blk p h]
  by (auto simp add: init_field_data_for_block_def alloc_def split: sum.splits)

lemma init_reuses_cache:
  assumes "user self = Some u" and "\<not> is_anonymous u"
    and "student_data_mode (system self) = Persisted"
    and "django_field_data_caches self (context_key (usage_id (scope_ids blk))) = Some (a, c)"
    and "init_field_data_for_block p self h blk = (r, self1, h1)"
  shows "django_field_data_caches self1 =
        (django_field_data_caches self)(context_key (usage_id (scope_ids blk)) \<mapsto>
           (a, snd (add_blocks_to_cache p c [blk])))
    \<and> (\<forall>fd. r = Inr fd \<longrightarrow>
          (\<exists>a_split m a_fd a_kvs. fd = SplitFieldData a_split m
             \<and> map_of m Scope_user_state =
                 Some (Some (KvsFieldData a_fd (DjangoKeyValueStore a_kvs a)))))"
  using assms sds_persisted_reuse [of self u blk a c p h]
  by (auto simp add: init_field_data_for_block_def alloc_def Let_def
      split: sum.splits option.splits)

lemma init_reuse_ignores_constructor:
  assumes "django_field_data_caches self (context_key (usage_id (scope_ids blk))) \<noteq> None"
  shows "init_field_data_for_block (p\<lparr>FieldDataCache := f\<rparr>) self h blk
    = init_field_data_for_block p self h blk"
  using assms
  by (auto simp add: init_field_data_for_block_def student_data_store_def Let_def
      split: option.splits)

subsection \<open>The two loops of render\<close>

lemma needs_fix_iff:
  "needs_fix rs = (\<exists>r \<in> set rs. kind r = ''url'' \<and> startswith (data r) ''/'')"
  by (induction rs) auto











lemma render_denied:
  assumes "user self = None \<or> (\<exists>u. user self = Some u \<and> is_anonymous u)"
    and "view_name \<noteq> ''public_view''"
  shows "render p self blk view_name context = Inl PermissionDenied"
  using assms by (auto simp add: render_def)

lemma render_public_view:
  "render p self blk ''public_view'' context =
    (case super_render p self blk ''public_view'' context of
       Inl e \<Rightarrow> Inl e
     | Inr f \<Rightarrow>
         Inr (wrap_fragment p
           (if needs_fix (resources f)
            then f\<lparr>private_resources := fix_resources (get_site_root_url p) (resources f)\<rparr>
            else f)
           (replace_urls p blk (content f))))"
proof (cases "super_render p self blk ''public_view'' context")
  case (Inl e)
  then show ?thesis by (simp add: render_def)
next
  case (Inr f)
  then show ?thesis
    by (cases "needs_fix (resources f)") (simp_all add: render_def Let_def)
qed

subsection \<open>The student data store\<close>





subsection \<open>The field data is built once\<close>

text \<open>
  C2. Repeated \<^verbatim>\<open>service(block, "field-data")\<close> calls build the block's FieldData at
  most once. When the first call (no entry yet for the block's scope_ids) succeeds, its
  result is the object \<^verbatim>\<open>_init_field_data_for_block\<close> built, stored under the
  scope_ids. After any further service requests on the runtime, a request for a block
  with the same scope_ids returns that very object (same addresses) and leaves the
  runtime and the heap as they are, so nothing is constructed; this holds whatever the
  imported code would do now.
\<close>

theorem field_data_built_once:
  assumes first: "block_field_datas self (scope_ids blk) = None"
    and ok: "service p self h blk ''field-data'' = (Inr r, self1, h1)"
    and later: "service_calls p self1 h1 calls = (self2, h2)"
  shows "\<exists>fd self0.
      init_field_data_for_block p self h blk = (Inr fd, self0, h1)
      \<and> r = Some (FieldData fd)
      \<and> self1 = self0\<lparr>block_field_datas := (block_field_datas self0)(scope_ids blk \<mapsto> Some fd)\<rparr>
      \<and> block_field_datas self2 (scope_ids blk) = Some (Some fd)
      \<and> (\<forall>p' blk'. scope_ids blk' = scope_ids blk
              \<and> service_declaration blk' ''field-data'' \<noteq> None \<longrightarrow>
            service p' self2 h2 blk' ''field-data'' = (Inr (Some (FieldData fd)), self2, h2))
      \<and> service p self2 h2 blk ''field-data'' = (Inr (Some (FieldData fd)), self2, h2)"
proof -
  have decl: "service_declaration blk ''field-data'' \<noteq> None"
    using ok service_undeclared [of blk "''field-data''" p self h] by auto
  obtain r0 self0 h0 where init: "init_field_data_for_block p self h blk = (r0, self0, h0)"
    by (cases "init_field_data_for_block p self h blk")
  from service_first [OF decl first init] ok obtain fd
    where r0: "r0 = Inr fd" and r: "r = Some (FieldData fd)" and h1: "h1 = h0"
      and self1: "self1 = self0\<lparr>block_field_datas :=
        (block_field_datas self0)(scope_ids blk \<mapsto> Some fd)\<rparr>"
    by (cases r0) auto
  from self1 have "block_field_datas self1 (scope_ids blk) = Some (Some fd)" by simp
  from service_calls_keep_entry [OF later this]
  have kept: "block_field_datas self2 (scope_ids blk) = Some (Some fd)" .
  have again: "service p' self2 h2 blk' ''field-data'' = (Inr (Some (FieldData fd)), self2, h2)"
    if "scope_ids blk' = scope_ids blk" and "service_declaration blk' ''field-data'' \<noteq> None"
    for blk' and p' :: "'a platform"
    using service_stored [of blk' self2 "Some fd" p' h2] that kept by simp
  from init r0 h1 r self1 kept again decl show ?thesis by blast
qed

theorem field_data_built_once_witness:
  "(let (r, self1, h1) =
          service demo_platform (demo_runtime Persisted (Some (User 7 False))) 3
            (demo_block ''lib:X'' ''b1'') ''field-data'';
        (self2, h2) =
          service_calls demo_platform self1 h1
            [(demo_block ''lib:X'' ''b2'', ''field-data''),
             (demo_block ''lib:X'' ''b1'', ''i18n''),
             (demo_block ''lib:X'' ''b1'', ''field-data'')]
    in r = Inr (Some (FieldData (SplitFieldData 6
             [(Scope_content, Some (BlockstoreFieldData 0)),
              (Scope_settings, Some (BlockstoreFieldData 0)),
              (Scope_parent, Some (BlockstoreFieldData 0)),
              (Scope_children, Some (BlockstoreChildrenData 1 (BlockstoreFieldData 0))),
              (Scope_user_state_summary, Some (KvsFieldData 5 (DjangoKeyValueStore 4 3))),
              (Scope_user_state, Some (KvsFieldData 5 (DjangoKeyValueStore 4 3))),
              (Scope_user_info, Some (KvsFieldData 5 (DjangoKeyValueStore 4 3))),
              (Scope_preferences, Some (KvsFieldData 5 (DjangoKeyValueStore 4 3)))])))
       \<and> service demo_platform self2 h2 (demo_block ''lib:X'' ''b1'') ''field-data''
           = (r, self2, h2))"
proof -
  let ?rt = "demo_runtime Persisted (Some (User 7 False))"
  let ?b1 = "demo_block ''lib:X'' ''b1''"
  let ?fd = "SplitFieldData 6
             [(Scope_content, Some (BlockstoreFieldData 0)),
              (Scope_settings, Some (BlockstoreFieldData 0)),
              (Scope_parent, Some (BlockstoreFieldData 0)),
              (Scope_children, Some (BlockstoreChildrenData 1 (BlockstoreFieldData 0))),
              (Scope_user_state_summary, Some (KvsFieldData 5 (DjangoKeyValueStore 4 3))),
              (Scope_user_state, Some (KvsFieldData 5 (DjangoKeyValueStore 4 3))),
              (Scope_user_info, Some (KvsFieldData 5 (DjangoKeyValueStore 4 3))),
              (Scope_preferences, Some (KvsFieldData 5 (DjangoKeyValueStore 4 3)))]"
  obtain r self1 h1
    where call: "service demo_platform ?rt 3 ?b1 ''field-data'' = (r, self1, h1)"
    by (cases "service demo_platform ?rt 3 ?b1 ''field-data''")
  have "fst (service demo_platform ?rt 3 ?b1 ''field-data'') = Inr (Some (FieldData ?fd))"
    by (simp add: service_def init_field_data_for_block_def student_data_store_def demo_defs)
  with call have r: "r = Inr (Some (FieldData ?fd))" by simp
  obtain self2 h2
    where later: "service_calls demo_platform self1 h1
            [(demo_block ''lib:X'' ''b2'', ''field-data''),
             (demo_block ''lib:X'' ''b1'', ''i18n''),
             (demo_block ''lib:X'' ''b1'', ''field-data'')] = (self2, h2)"
    by (cases "service_calls demo_platform self1 h1
            [(demo_block ''lib:X'' ''b2'', ''field-data''),
             (demo_block ''lib:X'' ''b1'', ''i18n''),
             (demo_block ''lib:X'' ''b1'', ''field-data'')]")
  have first: "block_field_datas ?rt (scope_ids ?b1) = None"
    by (simp add: demo_defs)
  from field_data_built_once [OF first call [unfolded r] later]
  have "service demo_platform self2 h2 ?b1 ''field-data'' = (Inr (Some (FieldData ?fd)), self2, h2)"
    by auto
  with call later r show ?thesis by simp
qed

subsection \<open>The SplitFieldData\<close>

text \<open>
  C3. The FieldData that \<^verbatim>\<open>_init_field_data_for_block\<close> returns is a SplitFieldData
  whose mapping sends content, settings and parent to the system's authored data store,
  children to the system's children data store, and user_state_summary, user_state,
  user_info and preferences to the student data store selected for the block.
\<close>

theorem split_field_data_routing:
  assumes "init_field_data_for_block p self h blk = (Inr fd, self1, h1)"
  shows "\<exists>a sds m.
      student_data_store p self h blk = (Inr sds, self1, a)
      \<and> fd = SplitFieldData a m
      \<and> map_of m Scope_content = Some (Some (authored_data_store (system self)))
      \<and> map_of m Scope_settings = Some (Some (authored_data_store (system self)))
      \<and> map_of m Scope_parent = Some (Some (authored_data_store (system self)))
      \<and> map_of m Scope_children = Some (Some (children_data_store (system self)))
      \<and> map_of m Scope_user_state_summary = Some sds
      \<and> map_of m Scope_user_state = Some sds
      \<and> map_of m Scope_user_info = Some sds
      \<and> map_of m Scope_preferences = Some sds"
proof (cases "student_data_store p self h blk")
  case (fields r0 self0 h0)
  from sds_frame [OF fields] have "system self0 = system self" by simp
  with fields assms show ?thesis
    by (auto simp add: init_field_data_for_block_def alloc_def split: sum.splits)
qed

theorem split_field_data_routing_witness:
  "init_field_data_for_block demo_platform (demo_runtime Ephemeral (Some (User 7 False))) 3
      (demo_block ''lib:X'' ''b1'')
    = (Inr (SplitFieldData 5
         [(Scope_content, Some (BlockstoreFieldData 0)),
          (Scope_settings, Some (BlockstoreFieldData 0)),
          (Scope_parent, Some (BlockstoreFieldData 0)),
          (Scope_children, Some (BlockstoreChildrenData 1 (BlockstoreFieldData 0))),
          (Scope_user_state_summary, Some (KvsFieldData 4 (EphemeralKeyValueStore 3))),
          (Scope_user_state, Some (KvsFieldData 4 (EphemeralKeyValueStore 3))),
          (Scope_user_info, Some (KvsFieldData 4 (EphemeralKeyValueStore 3))),
          (Scope_preferences, Some (KvsFieldData 4 (EphemeralKeyValueStore 3)))]),
       demo_runtime Ephemeral (Some (User 7 False)), 6)
   \<and> student_data_store demo_platform (demo_runtime Ephemeral (Some (User 7 False))) 3
        (demo_block ''lib:X'' ''b1'')
     = (Inr (Some (KvsFieldData 4 (EphemeralKeyValueStore 3))),
        demo_runtime Ephemeral (Some (User 7 False)), 5)"
proof -
  have run: "init_field_data_for_block demo_platform
      (demo_runtime Ephemeral (Some (User 7 False))) 3 (demo_block ''lib:X'' ''b1'')
    = (Inr (SplitFieldData 5
         [(Scope_content, Some (BlockstoreFieldData 0)),
          (Scope_settings, Some (BlockstoreFieldData 0)),
          (Scope_parent, Some (BlockstoreFieldData 0)),
          (Scope_children, Some (BlockstoreChildrenData 1 (BlockstoreFieldData 0))),
          (Scope_user_state_summary, Some (KvsFieldData 4 (EphemeralKeyValueStore 3))),
          (Scope_user_state, Some (KvsFieldData 4 (EphemeralKeyValueStore 3))),
          (Scope_user_info, Some (KvsFieldData 4 (EphemeralKeyValueStore 3))),
          (Scope_preferences, Some (KvsFieldData 4 (EphemeralKeyValueStore 3)))]),
       demo_runtime Ephemeral (Some (User 7 False)), 6)"
    by (simp add: init_field_data_for_block_def student_data_store_def demo_defs)
  from split_field_data_routing [OF run] run show ?thesis
    by auto
qed

subsection \<open>One FieldDataCache per learning context\<close>

text \<open>
  C4. In Persisted mode with a registered user: when the first field-data request in a
  learning context succeeds, the FieldDataCache the constructor returned is stored under
  the context key at an address not in use before. After any further service requests,
  the entry still holds that address, and the first field-data request for another block
  of the same context keeps the address, replaces the content by what
  \<^verbatim>\<open>add_blocks_to_cache\<close> leaves, does not depend on the constructor, and (when it
  returns) gives a store whose DjangoKeyValueStore refers to that same cache.
\<close>

theorem one_field_data_cache_per_context:
  assumes reg: "user self = Some u" "\<not> is_anonymous u"
    and mode: "student_data_mode (system self) = Persisted"
    and new_context: "django_field_data_caches self (context_key (usage_id (scope_ids blk1))) = None"
    and first: "block_field_datas self (scope_ids blk1) = None"
    and call1: "service p self h blk1 ''field-data'' = (Inr r1, self1, h1)"
    and between: "service_calls p self1 h1 calls = (self2, h2)"
    and same_context: "context_key (usage_id (scope_ids blk2)) = context_key (usage_id (scope_ids blk1))"
    and decl2: "service_declaration blk2 ''field-data'' \<noteq> None"
    and first2: "block_field_datas self2 (scope_ids blk2) = None"
    and call2: "service p self2 h2 blk2 ''field-data'' = (r2, self3, h3)"
  shows "\<exists>a c1 c2.
      FieldDataCache p [blk1] (context_key (usage_id (scope_ids blk1))) u = Inr c1
      \<and> \<not> allocated h a \<and> allocated h1 a
      \<and> django_field_data_caches self1 =
          (django_field_data_caches self)(context_key (usage_id (scope_ids blk1)) \<mapsto> (a, c1))
      \<and> django_field_data_caches self2 (context_key (usage_id (scope_ids blk1))) = Some (a, c2)
      \<and> django_field_data_caches self3 =
          (django_field_data_caches self2)(context_key (usage_id (scope_ids blk1)) \<mapsto>
             (a, snd (add_blocks_to_cache p c2 [blk2])))
      \<and> (\<forall>f. service (p\<lparr>FieldDataCache := f\<rparr>) self2 h2 blk2 ''field-data'' = (r2, self3, h3))
      \<and> (\<forall>fd2. r2 = Inr (Some (FieldData fd2)) \<longrightarrow>
            (\<exists>a_split m a_fd a_kvs. fd2 = SplitFieldData a_split m
               \<and> map_of m Scope_user_state =
                   Some (Some (KvsFieldData a_fd (DjangoKeyValueStore a_kvs a)))))"
proof -
  let ?ckey = "context_key (usage_id (scope_ids blk1))"
  have decl1: "service_declaration blk1 ''field-data'' \<noteq> None"
    using call1 service_undeclared [of blk1 "''field-data''" p self h] by auto
  obtain r0 self0 h0 where init1: "init_field_data_for_block p self h blk1 = (r0, self0, h0)"
    by (cases "init_field_data_for_block p self h blk1")
  from service_first [OF decl1 first init1] call1 obtain fd1
    where r0: "r0 = Inr fd1" and h1: "h1 = h0"
      and self1: "self1 = self0\<lparr>block_field_datas :=
        (block_field_datas self0)(scope_ids blk1 \<mapsto> Some fd1)\<rparr>"
    by (cases r0) auto
  from init_creates_cache [OF reg mode new_context init1 [unfolded r0]] obtain c1
    where c1: "FieldDataCache p [blk1] ?ckey u = Inr c1"
      and caches0: "django_field_data_caches self0 = (django_field_data_caches self)(?ckey \<mapsto> (h, c1))"
      and lt: "h < h0"
    by blast
  from caches0 self1
  have caches1: "django_field_data_caches self1 = (django_field_data_caches self)(?ckey \<mapsto> (h, c1))"
    by simp
  then have "django_field_data_caches self1 ?ckey = Some (h, c1)" by simp
  from service_calls_cache_addr [OF between this] obtain c2
    where caches2: "django_field_data_caches self2 ?ckey = Some (h, c2)" by blast
  from call1 have frame1: "user self1 = user self \<and> system self1 = system self"
    using service_frame [OF call1] by simp
  from service_calls_frame [OF between] frame1 reg mode
  have reg2: "user self2 = Some u" and mode2: "student_data_mode (system self2) = Persisted"
    by simp_all
  from caches2 same_context
  have caches2': "django_field_data_caches self2 (context_key (usage_id (scope_ids blk2))) = Some (h, c2)"
    by simp
  obtain r0' self0' h0' where init2: "init_field_data_for_block p self2 h2 blk2 = (r0', self0', h0')"
    by (cases "init_field_data_for_block p self2 h2 blk2")
  from service_first [OF decl2 first2 init2] call2
  have r2: "r2 = (case r0' of Inl e \<Rightarrow> Inl e | Inr fd \<Rightarrow> Inr (Some (FieldData fd)))"
    and self3: "self3 = self0'\<lparr>block_field_datas := (block_field_datas self0')(scope_ids blk2 \<mapsto>
        (case r0' of Inl e \<Rightarrow> None | Inr fd \<Rightarrow> Some fd))\<rparr>"
    and h3: "h3 = h0'"
    by simp_all
  from init_reuses_cache [OF reg2 reg(2) mode2 caches2' init2] same_context
  have caches0': "django_field_data_caches self0' =
      (django_field_data_caches self2)(?ckey \<mapsto> (h, snd (add_blocks_to_cache p c2 [blk2])))"
    and store: "\<forall>fd. r0' = Inr fd \<longrightarrow>
          (\<exists>a_split m a_fd a_kvs. fd = SplitFieldData a_split m
             \<and> map_of m Scope_user_state =
                 Some (Some (KvsFieldData a_fd (DjangoKeyValueStore a_kvs h))))"
    by simp_all
  from caches0' self3
  have caches3: "django_field_data_caches self3 =
      (django_field_data_caches self2)(?ckey \<mapsto> (h, snd (add_blocks_to_cache p c2 [blk2])))"
    by simp
  have no_constructor: "service (p\<lparr>FieldDataCache := f\<rparr>) self2 h2 blk2 ''field-data'' = (r2, self3, h3)"
    for f
  proof -
    from caches2' have "init_field_data_for_block (p\<lparr>FieldDataCache := f\<rparr>) self2 h2 blk2
        = (r0', self0', h0')"
      using init_reuse_ignores_constructor [where self = self2 and blk = blk2 and p = p and f = f and h = h2]
        init2 by simp
    from service_first [OF decl2 first2 this] r2 self3 h3 show ?thesis by simp
  qed
  have store2: "\<forall>fd2. r2 = Inr (Some (FieldData fd2)) \<longrightarrow>
            (\<exists>a_split m a_fd a_kvs. fd2 = SplitFieldData a_split m
               \<and> map_of m Scope_user_state =
                   Some (Some (KvsFieldData a_fd (DjangoKeyValueStore a_kvs h))))"
    using store r2 by (cases r0') auto
  have fresh: "\<not> allocated h h \<and> allocated h1 h"
    using lt h1 by (simp add: allocated_def)
  from c1 fresh caches1 caches2 caches3 no_constructor store2 show ?thesis by blast
qed

theorem one_field_data_cache_per_context_witness:
  "(let (r1, self1, h1) =
          service demo_platform (demo_runtime Persisted (Some (User 7 False))) 3
            (demo_block ''lib:X'' ''b1'') ''field-data'';
        (self2, h2) = service_calls demo_platform self1 h1 [(demo_block ''lib:X'' ''b1'', ''i18n'')];
        (r2, self3, h3) = service demo_platform self2 h2 (demo_block ''lib:X'' ''b2'') ''field-data''
    in django_field_data_caches self1 ''lib:X'' = Some (3, [demo_block ''lib:X'' ''b1''])
       \<and> django_field_data_caches self3 ''lib:X''
           = Some (3, [demo_block ''lib:X'' ''b1'', demo_block ''lib:X'' ''b2''])
       \<and> dom (django_field_data_caches self3) = {''lib:X''})"
proof -
  let ?rt = "demo_runtime Persisted (Some (User 7 False))"
  let ?b1 = "demo_block ''lib:X'' ''b1''"
  let ?b2 = "demo_block ''lib:X'' ''b2''"
  let ?fd = "SplitFieldData 6
             [(Scope_content, Some (BlockstoreFieldData 0)),
              (Scope_settings, Some (BlockstoreFieldData 0)),
              (Scope_parent, Some (BlockstoreFieldData 0)),
              (Scope_children, Some (BlockstoreChildrenData 1 (BlockstoreFieldData 0))),
              (Scope_user_state_summary, Some (KvsFieldData 5 (DjangoKeyValueStore 4 3))),
              (Scope_user_state, Some (KvsFieldData 5 (DjangoKeyValueStore 4 3))),
              (Scope_user_info, Some (KvsFieldData 5 (DjangoKeyValueStore 4 3))),
              (Scope_preferences, Some (KvsFieldData 5 (DjangoKeyValueStore 4 3)))]"
  let ?rt1 = "?rt\<lparr>block_field_datas := [scope_ids ?b1 \<mapsto> Some ?fd],
                 django_field_data_caches := [''lib:X'' \<mapsto> (3, [?b1])]\<rparr>"
  have reg: "user ?rt = Some (User 7 False)" "\<not> is_anonymous (User 7 False)"
    and mode: "student_data_mode (system ?rt) = Persisted"
    and new_context: "django_field_data_caches ?rt (context_key (usage_id (scope_ids ?b1))) = None"
    and first: "block_field_datas ?rt (scope_ids ?b1) = None"
    and same_context: "context_key (usage_id (scope_ids ?b2)) = context_key (usage_id (scope_ids ?b1))"
    and decl2: "service_declaration ?b2 ''field-data'' \<noteq> None"
    and ckey: "context_key (usage_id (scope_ids ?b1)) = ''lib:X''"
    and first2: "block_field_datas ?rt1 (scope_ids ?b2) = None"
    by (simp_all add: demo_defs)
  have call1: "service demo_platform ?rt 3 ?b1 ''field-data'' = (Inr (Some (FieldData ?fd)), ?rt1, 7)"
    by (simp add: service_def init_field_data_for_block_def student_data_store_def demo_defs)
  have between: "service_calls demo_platform ?rt1 7 [(?b1, ''i18n'')] = (?rt1, 7)"
    by (simp add: service_def demo_block_def Let_def)
  obtain r2 self3 h3 where call2: "service demo_platform ?rt1 7 ?b2 ''field-data'' = (r2, self3, h3)"
    by (cases "service demo_platform ?rt1 7 ?b2 ''field-data''")
  from one_field_data_cache_per_context
    [OF reg mode new_context first call1 between same_context decl2 first2 call2]
  obtain a c2 where caches2: "django_field_data_caches ?rt1 ''lib:X'' = Some (a, c2)"
    and caches3: "django_field_data_caches self3 =
        (django_field_data_caches ?rt1)(''lib:X'' \<mapsto>
           (a, snd (add_blocks_to_cache demo_platform c2 [?b2])))"
    unfolding ckey by blast
  from caches2 have a: "a = 3" and c2: "c2 = [?b1]" by simp_all
  have 1: "django_field_data_caches ?rt1 ''lib:X'' = Some (3, [?b1])"
    by simp
  from caches3 a c2 have 3: "django_field_data_caches self3 ''lib:X'' = Some (3, [?b1, ?b2])"
    by (simp add: demo_platform_def)
  from caches3 have dom3: "dom (django_field_data_caches self3) = {''lib:X''}"
    by simp
  from call1 between call2 1 3 dom3 show ?thesis by simp
qed

subsection \<open>Dispatch of published events\<close>

text \<open>
  C5. \<^verbatim>\<open>publish\<close> hands a 'grade' event to \<^verbatim>\<open>handle_grade_event\<close> and a 'completion'
  event to \<^verbatim>\<open>handle_completion_event\<close> when the runtime's user_id is not None; in
  every other case the event goes to \<^verbatim>\<open>log_event_to_tracking_log\<close>.
\<close>

theorem publish_dispatch:
  "publish p self blk event_type event_data w =
    (if user_id self \<noteq> None \<and> event_type = ''grade''
     then handle_grade_event self blk event_data w
     else if user_id self \<noteq> None \<and> event_type = ''completion''
     then handle_completion_event p self blk event_data w
     else log_event_to_tracking_log p self blk event_type event_data w)"
  by (simp add: publish_def get_event_handler_def)

theorem publish_dispatch_witness:
  "publish demo_platform (demo_runtime Persisted (Some (User 7 False))) (demo_block ''lib:X'' ''b1'')
      ''grade'' [(''value'', PyInt 1), (''max_value'', PyInt 2)] []
    = (Inr (), [SCORE_PUBLISHED (demo_block ''lib:X'' ''b1'') (User 7 False) (PyInt 1) (PyInt 2)
                  PyNone PyNone PyNone])
   \<and> publish demo_platform (demo_runtime Persisted (Some (User 7 False)))
        (demo_block ''lib:X'' ''b1'') ''completion'' [(''completion'', PyInt 1)] []
    = (Inr (), [submit_completion (Some (User 7 False)) (UsageKey ''lib:X'' ''b1'') (PyInt 1)])
   \<and> publish demo_platform (demo_runtime Persisted (Some (User 7 False)))
        (demo_block ''lib:X'' ''b1'') ''edx.done.toggled'' [(''done'', PyBool True)] []
    = (Inr (), [server_track ''edx.done.toggled''
                  [(''course_id'', PyStr ''lib:X''), (''user_id'', PyInt 7), (''asides'', PyDict [])]
                  [(''done'', PyBool True)]])
   \<and> publish demo_platform (demo_runtime Persisted None) (demo_block ''lib:X'' ''b1'')
        ''grade'' [(''value'', PyInt 1), (''max_value'', PyInt 2)] []
    = (Inr (), [server_track ''grade''
                  [(''course_id'', PyStr ''lib:X''), (''asides'', PyDict [])]
                  [(''value'', PyInt 1), (''max_value'', PyInt 2)]])"
  using publish_dispatch [of demo_platform "demo_runtime Persisted (Some (User 7 False))"
      "demo_block ''lib:X'' ''b1''" "''grade''" "[(''value'', PyInt 1), (''max_value'', PyInt 2)]" "[]"]
    publish_dispatch [of demo_platform "demo_runtime Persisted (Some (User 7 False))"
      "demo_block ''lib:X'' ''b1''" "''completion''" "[(''completion'', PyInt 1)]" "[]"]
    publish_dispatch [of demo_platform "demo_runtime Persisted (Some (User 7 False))"
      "demo_block ''lib:X'' ''b1''" "''edx.done.toggled''" "[(''done'', PyBool True)]" "[]"]
    publish_dispatch [of demo_platform "demo_runtime Persisted None"
      "demo_block ''lib:X'' ''b1''" "''grade''" "[(''value'', PyInt 1), (''max_value'', PyInt 2)]" "[]"]
  by (simp add: handle_grade_event_def handle_completion_event_def log_event_to_tracking_log_def
      dict_get_def demo_defs)

subsection \<open>Resource URLs of a rendered fragment\<close>




subsection \<open>The runtime of a user\<close>

text \<open>
  C7. \<^verbatim>\<open>get_runtime(user)\<close> always returns a runtime, at an address not in use before,
  of the system's runtime class, bound to the system and the user, with both dicts
  empty. Its user_id is None when the user is None, the id given by
  \<^verbatim>\<open>get_xblock_id_for_anonymous_user\<close> when the user is anonymous, and the primary key
  of a registered user.
\<close>

theorem get_runtime_user_id:
  "\<exists>rt h1. get_runtime p h self usr = (rt, h1)
     \<and> \<not> allocated h (self_addr rt) \<and> allocated h1 (self_addr rt)
     \<and> class_name rt = runtime_class self \<and> system rt = self \<and> user rt = usr
     \<and> block_field_datas rt = Map.empty \<and> django_field_data_caches rt = Map.empty
     \<and> (usr = None \<longrightarrow> user_id rt = None)
     \<and> (\<forall>u. usr = Some u \<and> is_anonymous u \<longrightarrow>
           user_id rt = Some (get_xblock_id_for_anonymous_user p u))
     \<and> (\<forall>pk staff. usr = Some (User pk staff) \<longrightarrow> user_id rt = Some (IntId pk))"
proof (cases usr)
  case None
  then show ?thesis
    by (simp add: get_runtime_def XBlockRuntime_init_def alloc_def allocated_def)
next
  case (Some u)
  then show ?thesis
    by (cases u) (simp_all add: get_runtime_def XBlockRuntime_init_def alloc_def allocated_def)
qed

theorem get_runtime_user_id_witness:
  "user_id (fst (get_runtime demo_platform 2 (demo_system Persisted) None)) = None
   \<and> user_id (fst (get_runtime demo_platform 2 (demo_system Persisted) (Some AnonymousUser)))
      = Some (StrId ''anon1f0e'')
   \<and> user_id (fst (get_runtime demo_platform 2 (demo_system Persisted) (Some (User 7 False))))
      = Some (IntId 7)
   \<and> self_addr (fst (get_runtime demo_platform 2 (demo_system Persisted) (Some (User 7 False)))) = 2
   \<and> snd (get_runtime demo_platform 2 (demo_system Persisted) (Some (User 7 False))) = 3"
  using get_runtime_user_id [of demo_platform 2 "demo_system Persisted" None]
    get_runtime_user_id [of demo_platform 2 "demo_system Persisted" "Some AnonymousUser"]
    get_runtime_user_id [of demo_platform 2 "demo_system Persisted" "Some (User 7 False)"]
  by (auto simp add: demo_defs)

subsection \<open>Who may render which view\<close>

text \<open>
  C8. When the runtime's user is None or anonymous and the view is not 'public_view',
  \<^verbatim>\<open>render\<close> raises PermissionDenied whatever the base class's render would do, so
  before anything is rendered. For 'public_view' the check rejects no user: render
  raises exactly when the base class's render raises, with that exception, and returns
  a fragment whenever the base class's render returns one.
\<close>

theorem render_permission_check:
  "((user self = None \<or> (\<exists>u. user self = Some u \<and> is_anonymous u))
      \<and> view_name \<noteq> ''public_view'' \<longrightarrow>
        (\<forall>sr. render (p\<lparr>super_render := sr\<rparr>) self blk view_name context = Inl PermissionDenied))
   \<and> (\<forall>e. (render p self blk ''public_view'' context = Inl e)
          = (super_render p self blk ''public_view'' context = Inl e))
   \<and> (\<forall>f. super_render p self blk ''public_view'' context = Inr f \<longrightarrow>
          (\<exists>f'. render p self blk ''public_view'' context = Inr f'))"
proof (intro conjI allI impI)
  fix sr
  assume "(user self = None \<or> (\<exists>u. user self = Some u \<and> is_anonymous u))
      \<and> view_name \<noteq> ''public_view''"
  then show "render (p\<lparr>super_render := sr\<rparr>) self blk view_name context = Inl PermissionDenied"
    using render_denied [of self view_name "p\<lparr>super_render := sr\<rparr>" blk "context"] by blast
next
  fix e
  show "(render p self blk ''public_view'' context = Inl e)
      = (super_render p self blk ''public_view'' context = Inl e)"
    by (cases "super_render p self blk ''public_view'' context")
      (simp_all add: render_public_view)
next
  fix f
  assume "super_render p self blk ''public_view'' context = Inr f"
  then show "\<exists>f'. render p self blk ''public_view'' context = Inr f'"
    by (simp add: render_public_view)
qed

theorem render_permission_check_witness:
  "render demo_platform (demo_runtime Persisted None) (demo_block ''lib:X'' ''b1'')
      ''student_view'' None = Inl PermissionDenied
   \<and> render demo_platform (demo_runtime Persisted (Some AnonymousUser))
        (demo_block ''lib:X'' ''b1'') ''student_view'' None = Inl PermissionDenied
   \<and> (\<exists>f. render demo_platform (demo_runtime Persisted (Some AnonymousUser))
        (demo_block ''lib:X'' ''b1'') ''public_view'' None = Inr f)
   \<and> (\<exists>f. render demo_platform (demo_runtime Persisted None)
        (demo_block ''lib:X'' ''b1'') ''public_view'' None = Inr f)"
proof -
  have p: "demo_platform\<lparr>super_render := super_render demo_platform\<rparr> = demo_platform"
    by simp
  have none: "user (demo_runtime Persisted None) = None"
    and anon: "user (demo_runtime Persisted (Some AnonymousUser)) = Some AnonymousUser"
    by (simp_all add: demo_defs)
  have view: "''student_view'' \<noteq> ''public_view''" by simp
  have sr: "super_render demo_platform rt (demo_block ''lib:X'' ''b1'') ''public_view'' None
      = Inr demo_fragment" for rt :: "block list runtime"
    by (simp add: demo_platform_def)
  from render_permission_check [of "demo_runtime Persisted None" "''student_view''" demo_platform
      "demo_block ''lib:X'' ''b1''" None] none view p
  have 1: "render demo_platform (demo_runtime Persisted None) (demo_block ''lib:X'' ''b1'')
      ''student_view'' None = Inl PermissionDenied"
    by metis
  from render_permission_check [of "demo_runtime Persisted (Some AnonymousUser)" "''student_view''"
      demo_platform "demo_block ''lib:X'' ''b1''" None] anon view p
  have 2: "render demo_platform (demo_runtime Persisted (Some AnonymousUser))
      (demo_block ''lib:X'' ''b1'') ''student_view'' None = Inl PermissionDenied"
    by (metis is_anonymous.simps(1))
  from render_permission_check [of "demo_runtime Persisted (Some AnonymousUser)" "''student_view''"
      demo_platform "demo_block ''lib:X'' ''b1''" None] sr
  have 3: "\<exists>f. render demo_platform (demo_runtime Persisted (Some AnonymousUser))
        (demo_block ''lib:X'' ''b1'') ''public_view'' None = Inr f"
    by blast
  from render_permission_check [of "demo_runtime Persisted None" "''student_view''"
      demo_platform "demo_block ''lib:X'' ''b1''" None] sr
  have 4: "\<exists>f. render demo_platform (demo_runtime Persisted None)
        (demo_block ''lib:X'' ''b1'') ''public_view'' None = Inr f"
    by blast
  from 1 2 3 4 show ?thesis by blast
qed

subsection \<open>A failed initialisation is remembered\<close>

text \<open>
  C9. When \<^verbatim>\<open>_init_field_data_for_block\<close> raises during the first field-data request
  for a block, \<^verbatim>\<open>service\<close> raises the same exception and leaves None stored under the
  block's scope_ids. After any further service requests, a field-data request for the
  block returns None and changes neither the runtime nor the heap, whatever the imported
  code would do now: the initialisation is not tried again.
\<close>

theorem field_data_failure_stored:
  assumes decl: "service_declaration blk ''field-data'' \<noteq> None"
    and first: "block_field_datas self (scope_ids blk) = None"
    and raises: "init_field_data_for_block p self h blk = (Inl e, self0, h0)"
    and call: "service p self h blk ''field-data'' = (r, self1, h1)"
    and later: "service_calls p self1 h1 calls = (self2, h2)"
  shows "r = Inl e
    \<and> self1 = self0\<lparr>block_field_datas := (block_field_datas self0)(scope_ids blk \<mapsto> None)\<rparr>
    \<and> h1 = h0
    \<and> block_field_datas self2 (scope_ids blk) = Some None
    \<and> (\<forall>p'. service p' self2 h2 blk ''field-data'' = (Inr None, self2, h2))"
proof -
  from service_first [OF decl first raises] call
  have r: "r = Inl e" and h1: "h1 = h0"
    and self1: "self1 = self0\<lparr>block_field_datas :=
      (block_field_datas self0)(scope_ids blk \<mapsto> None)\<rparr>"
    by simp_all
  from self1 have "block_field_datas self1 (scope_ids blk) = Some None" by simp
  from service_calls_keep_entry [OF later this]
  have kept: "block_field_datas self2 (scope_ids blk) = Some None" .
  have "service p' self2 h2 blk ''field-data'' = (Inr None, self2, h2)" for p' :: "'a platform"
    using service_stored [OF decl kept, of p' h2] by simp
  with r h1 self1 kept show ?thesis by simp
qed

theorem field_data_failure_stored_witness:
  "(let p = demo_platform\<lparr>FieldDataCache :=
              (\<lambda>blocks ckey u. Inl (PlatformError ''database is down''))\<rparr>;
        (r, self1, h1) =
          service p (demo_runtime Persisted (Some (User 7 False))) 3
            (demo_block ''lib:X'' ''b1'') ''field-data'';
        (self2, h2) =
          service_calls p self1 h1
            [(demo_block ''lib:X'' ''b1'', ''i18n''),
             (demo_block ''lib:X'' ''b1'', ''field-data'')]
    in r = Inl (PlatformError ''database is down'')
       \<and> service p self2 h2 (demo_block ''lib:X'' ''b1'') ''field-data''
           = (Inr None, self2, h2))"
proof -
  let ?p = "demo_platform\<lparr>FieldDataCache :=
              (\<lambda>blocks ckey u. Inl (PlatformError ''database is down''))\<rparr>"
  let ?rt = "demo_runtime Persisted (Some (User 7 False))"
  let ?b1 = "demo_block ''lib:X'' ''b1''"
  have decl: "service_declaration ?b1 ''field-data'' \<noteq> None"
    and first: "block_field_datas ?rt (scope_ids ?b1) = None"
    by (simp_all add: demo_defs)
  have raises: "init_field_data_for_block ?p ?rt 3 ?b1
      = (Inl (PlatformError ''database is down''), ?rt, 3)"
    by (simp add: init_field_data_for_block_def student_data_store_def demo_defs)
  obtain r self1 h1 where call: "service ?p ?rt 3 ?b1 ''field-data'' = (r, self1, h1)"
    by (cases "service ?p ?rt 3 ?b1 ''field-data''")
  obtain self2 h2
    where later: "service_calls ?p self1 h1
            [(demo_block ''lib:X'' ''b1'', ''i18n''),
             (demo_block ''lib:X'' ''b1'', ''field-data'')] = (self2, h2)"
    by (cases "service_calls ?p self1 h1
            [(demo_block ''lib:X'' ''b1'', ''i18n''),
             (demo_block ''lib:X'' ''b1'', ''field-data'')]")
  from field_data_failure_stored [OF decl first raises call later] call later
  show ?thesis by (simp add: Let_def)
qed

subsection \<open>Grades of anonymous users\<close>

text \<open>
  C10. For an anonymous user whose user_id is a string, \<^verbatim>\<open>get_event_handler\<close> selects
  \<^verbatim>\<open>handle_grade_event\<close> for a 'grade' event, the handler sends no signal, and
  \<^verbatim>\<open>publish\<close> returns leaving the world as it was: no SCORE_PUBLISHED and no
  tracking log entry.
\<close>

theorem anonymous_grade_no_effect:
  assumes "user self = Some u" and "is_anonymous u" and "user_id self = Some (StrId s)"
  shows "get_event_handler p self ''grade'' = Some (handle_grade_event self)
    \<and> handle_grade_event self blk event_data w = (Inr (), w)
    \<and> publish p self blk ''grade'' event_data w = (Inr (), w)"
  using assms by (simp add: publish_def get_event_handler_def handle_grade_event_def)

theorem anonymous_grade_no_effect_witness:
  "user (demo_runtime Persisted (Some AnonymousUser)) = Some AnonymousUser
   \<and> user_id (demo_runtime Persisted (Some AnonymousUser)) = Some (StrId ''anon1f0e'')
   \<and> publish demo_platform (demo_runtime Persisted (Some AnonymousUser))
        (demo_block ''lib:X'' ''b1'') ''grade'' [(''value'', PyInt 1), (''max_value'', PyInt 2)] []
      = (Inr (), [])"
proof -
  have u: "user (demo_runtime Persisted (Some AnonymousUser)) = Some AnonymousUser"
    and uid: "user_id (demo_runtime Persisted (Some AnonymousUser)) = Some (StrId ''anon1f0e'')"
    by (simp_all add: demo_defs)
  from anonymous_grade_no_effect [OF u _ uid] u uid show ?thesis by simp
qed

end
